theory Spec2Isabelle
  imports Main
begin

section \<open>MHTML page serialization (WebPageSerializer.cpp)\<close>

text \<open>
  A shallow embedding of the MHTML entry points of \<^verbatim>\<open>WebPageSerializer\<close> and of the
  \<^verbatim>\<open>MHTMLPageSerializerDelegate\<close> that the page serializer calls back while it walks a
  frame.  A WTF \<^verbatim>\<open>String\<close> is a \<^typ>\<open>string\<close>; the null string \<^verbatim>\<open>String()\<close> and the empty
  string are both \<^term>\<open>[] :: string\<close>, since the code only ever asks \<^verbatim>\<open>isEmpty()\<close>, which
  is true of both.
\<close>

subsection \<open>Data model\<close>

text \<open>A \<^verbatim>\<open>Frame*\<close> is used for its identity only (it is a hash key).\<close>

type_synonym Frame = nat

text \<open>
  The accessors of \<^verbatim>\<open>Document\<close> that the file reads: \<^verbatim>\<open>title()\<close>,
  \<^verbatim>\<open>suggestedMIMEType()\<close> and the three document-kind tests.
\<close>

record Document =
  title :: string
  suggestedMIMEType :: string
  isHTMLDocument :: bool
  isXHTMLDocument :: bool
  isImageDocument :: bool

text \<open>
  \<^verbatim>\<open>webFrame->toImplBase()->frame()\<close> is the core frame behind a \<^verbatim>\<open>WebFrame\<close>;
  \<^verbatim>\<open>toWebLocalFrameImpl(frame)->frame()->document()\<close> is the document of a local one.
\<close>

record WebFrame =
  coreFrame :: Frame

record WebLocalFrame = WebFrame +
  document :: Document

text \<open>
  \<^verbatim>\<open>HTMLFrameOwnerElement\<close>: \<^verbatim>\<open>contentFrame()\<close> and \<^verbatim>\<open>contentDocument()\<close> return pointers,
  which may be null.
\<close>

record HTMLFrameOwnerElement =
  contentFrame :: "Frame option"
  contentDocument :: "Document option"

text \<open>
  The dynamic class of an \<^verbatim>\<open>Element\<close>, as far as \<^verbatim>\<open>rewriteLink\<close> tells classes apart:
  frame and iframe elements (\<^verbatim>\<open>HTMLFrameElementBase\<close>), object elements, the remaining
  frame owners (embed, applet), and every element that owns no frame.
\<close>

datatype Element =
  HTMLFrameElementBase HTMLFrameOwnerElement
| HTMLObjectElement HTMLFrameOwnerElement
| OtherFrameOwnerElement HTMLFrameOwnerElement
| OtherElement

fun isFrameOwnerElement :: "Element \<Rightarrow> bool" where
  "isFrameOwnerElement OtherElement = False"
| "isFrameOwnerElement _ = True"

fun isHTMLFrameElementBase :: "Element \<Rightarrow> bool" where
  "isHTMLFrameElementBase (HTMLFrameElementBase _) = True"
| "isHTMLFrameElementBase _ = False"

fun isHTMLObjectElement :: "Element \<Rightarrow> bool" where
  "isHTMLObjectElement (HTMLObjectElement _) = True"
| "isHTMLObjectElement _ = False"

text \<open>The downcast, defined on frame owners only (the code checks before it casts).\<close>

fun toHTMLFrameOwnerElement :: "Element \<Rightarrow> HTMLFrameOwnerElement option" where
  "toHTMLFrameOwnerElement (HTMLFrameElementBase owner) = Some owner"
| "toHTMLFrameOwnerElement (HTMLObjectElement owner) = Some owner"
| "toHTMLFrameOwnerElement (OtherFrameOwnerElement owner) = Some owner"
| "toHTMLFrameOwnerElement OtherElement = None"

text \<open>A markup attribute with its qualified name.\<close>

record QualifiedName =
  namePrefix :: string
  localName :: string
  namespaceURI :: string

record Attribute =
  name :: QualifiedName
  val :: string

text \<open>
  \<^verbatim>\<open>HTMLNames::srcsetAttr\<close> comes from a generated header; it is the qualified name of
  the \<^verbatim>\<open>srcset\<close> attribute the comment in \<^verbatim>\<open>shouldIgnoreAttribute\<close> speaks of, in no
  namespace.
\<close>

definition srcsetAttr :: QualifiedName where
  "srcsetAttr = \<lparr>namePrefix = [], localName = ''srcset'', namespaceURI = []\<rparr>"

text \<open>
  \<^verbatim>\<open>operator==(const AtomicString&, const QualifiedName&)\<close> compares with the local name
  of the qualified name.
\<close>

definition eqLocalName :: "string \<Rightarrow> QualifiedName \<Rightarrow> bool" where
  "eqLocalName a q = (a = localName q)"

subsection \<open>The delegate: attributes\<close>

definition shouldIgnoreAttribute :: "Attribute \<Rightarrow> bool" where
  "shouldIgnoreAttribute attribute = eqLocalName (localName (name attribute)) srcsetAttr"

subsection \<open>The frame-to-content-id table\<close>

text \<open>
  \<^verbatim>\<open>ContentIDMap\<close> is a hash map from \<^verbatim>\<open>Frame*\<close> to \<^verbatim>\<open>String\<close>.  \<^verbatim>\<open>get\<close> answers the
  empty value of the mapped type, the null string, for a key that is not there; \<^verbatim>\<open>add\<close>
  leaves an entry that is already there as it is.
\<close>

type_synonym ContentIDMap = "Frame \<rightharpoonup> string"

definition HashMap_get :: "ContentIDMap \<Rightarrow> Frame \<Rightarrow> string" where
  "HashMap_get m key = (case m key of None \<Rightarrow> [] | Some mapped \<Rightarrow> mapped)"

definition HashMap_add :: "ContentIDMap \<Rightarrow> Frame \<Rightarrow> string \<Rightarrow> ContentIDMap" where
  "HashMap_add m key mapped = (case m key of None \<Rightarrow> m(key \<mapsto> mapped) | Some _ \<Rightarrow> m)"

fun createFrameToContentIDMap_loop ::
  "ContentIDMap \<Rightarrow> (WebFrame \<times> string) list \<Rightarrow> ContentIDMap" where
  "createFrameToContentIDMap_loop result [] = result"
| "createFrameToContentIDMap_loop result (it # rest) =
     (let webFrame = fst it;
          webContentID = snd it;
          frame = coreFrame webFrame;
          contentID = webContentID
      in createFrameToContentIDMap_loop (HashMap_add result frame contentID) rest)"

definition createFrameToContentIDMap :: "(WebFrame \<times> string) list \<Rightarrow> ContentIDMap" where
  "createFrameToContentIDMap webFrameToContentID =
     createFrameToContentIDMap_loop Map.empty webFrameToContentID"

subsection \<open>The delegate: links\<close>

text \<open>
  Modelled from the spec: \<^verbatim>\<open>KURL\<close> is not under src/.  Of a URL, \<^verbatim>\<open>rewriteLink\<close> reads
  \<^verbatim>\<open>isValid()\<close> and \<^verbatim>\<open>string()\<close>; the spec (testable properties) speaks of the link's
  value and of its being a valid URI.
\<close>

record KURL =
  isValid :: bool
  string :: string

text \<open>
  What stops a call: a failed \<^verbatim>\<open>ASSERT\<close>, or a member call through a null pointer.
\<close>

datatype error = AssertionFailure | NullPointerDereference

text \<open>
  \<^verbatim>\<open>ASSERT\<close> is the macro of \<^verbatim>\<open>wtf/Assertions.h\<close>, which is not under src/: it checks its
  argument in a build with assertions enabled and expands to nothing in any other build.
  Which build it is, is the first argument.
\<close>

definition ASSERT :: "bool \<Rightarrow> bool \<Rightarrow> error + unit" where
  "ASSERT assertionsEnabled assertion =
     (if assertionsEnabled \<and> \<not> assertion then Inl AssertionFailure else Inr ())"

record MHTMLPageSerializerDelegate =
  m_frameToContentID :: ContentIDMap

text \<open>
  \<^verbatim>\<open>rewriteLink\<close>.  \<^verbatim>\<open>MHTMLParser::convertContentIDToURI\<close> is not under src/: the function
  that makes a URL of a content id is the first argument, \<open>toURI\<close>, and what is proved of
  \<^verbatim>\<open>rewriteLink\<close> is proved for every such function.  The code returns a bool and writes
  the link through a reference; here \<^term>\<open>Some link\<close> is \<^verbatim>\<open>true\<close> with the link written,
  \<^term>\<open>None :: string option\<close> is \<^verbatim>\<open>false\<close> with the reference left as it was.
\<close>

definition rewriteLink ::
  "(string \<Rightarrow> KURL) \<Rightarrow> bool \<Rightarrow> MHTMLPageSerializerDelegate \<Rightarrow> Element
     \<Rightarrow> error + string option" where
  "rewriteLink toURI assertionsEnabled delegate element =
     (if \<not> isFrameOwnerElement element then Inr None
      else case toHTMLFrameOwnerElement element of
        None \<Rightarrow> Inr None
      | Some frameOwnerElement \<Rightarrow>
          (case contentFrame frameOwnerElement of
             None \<Rightarrow> Inr None
           | Some frame \<Rightarrow>
               (let cidURI = toURI (HashMap_get (m_frameToContentID delegate) frame)
                in case ASSERT assertionsEnabled (isValid cidURI) of
                     Inl e \<Rightarrow> Inl e
                   | Inr _ \<Rightarrow>
                       if isHTMLFrameElementBase element then Inr (Some (string cidURI))
                       else if isHTMLObjectElement element then
                         (case contentDocument frameOwnerElement of
                            None \<Rightarrow> Inl NullPointerDereference
                          | Some doc \<Rightarrow>
                              (let isHandledBySerializer =
                                     isHTMLDocument doc \<or> isXHTMLDocument doc
                                     \<or> isImageDocument doc
                               in if isHandledBySerializer
                                  then Inr (Some (string cidURI))
                                  else Inr None))
                       else Inr None)))"

text \<open>
  Modelled from the spec: what makes a string a URI is decided in \<^verbatim>\<open>KURL\<close>, which is not
  under src/.  The spec (testable properties) asks that the link be syntactically a valid
  URI; the syntax here is the generic one: a scheme, which is a letter followed by
  letters, digits, \<^verbatim>\<open>+\<close>, \<^verbatim>\<open>-\<close> and \<^verbatim>\<open>.\<close>, then a colon, then unreserved, reserved and
  percent-encoded characters only.
\<close>

definition isALPHA :: "char \<Rightarrow> bool" where
  "isALPHA c = (c \<in> set ''abcdefghijklmnopqrstuvwxyzABCDEFGHIJKLMNOPQRSTUVWXYZ'')"

definition isDIGIT :: "char \<Rightarrow> bool" where
  "isDIGIT c = (c \<in> set ''0123456789'')"

definition isHEXDIG :: "char \<Rightarrow> bool" where
  "isHEXDIG c = (isDIGIT c \<or> c \<in> set ''abcdefABCDEF'')"

definition isSchemeChar :: "char \<Rightarrow> bool" where
  "isSchemeChar c = (isALPHA c \<or> isDIGIT c \<or> c \<in> set ''+-.'')"

definition isURIChar :: "char \<Rightarrow> bool" where
  "isURIChar c =
     (isALPHA c \<or> isDIGIT c \<or> c \<in> set ''-._~'' \<or> c \<in> set '':/?#[]@''
      \<or> c \<in> set ''!$&()*+,;='' \<or> c = CHR 0x27)"

text \<open>
  Modelled from the spec: the text after the colon of a URI (syntactically valid URI, as
  above); a \<^verbatim>\<open>%\<close> is followed by two hexadecimal digits.
\<close>

fun isURIText :: "string \<Rightarrow> bool" where
  "isURIText [] = True"
| "isURIText (c # cs) =
     (if c = CHR ''%''
      then (case cs of
              h1 # h2 # rest \<Rightarrow> isHEXDIG h1 \<and> isHEXDIG h2 \<and> isURIText rest
            | _ \<Rightarrow> False)
      else isURIChar c \<and> isURIText cs)"

text \<open>
  Modelled from the spec: a syntactically valid URI (testable properties) is a scheme,
  the first colon of the string, and URI text.
\<close>

definition isURI :: "string \<Rightarrow> bool" where
  "isURI s =
     (let scheme = takeWhile (\<lambda>c. c \<noteq> CHR '':'') s
      in scheme \<noteq> [] \<and> length scheme < length s \<and> isALPHA (hd scheme)
         \<and> list_all isSchemeChar scheme \<and> isURIText (drop (Suc (length scheme)) s))"

text \<open>
  Modelled from the spec: \<^verbatim>\<open>MHTMLParser::convertContentIDToURI\<close> is not under src/.  The
  spec (testable properties) has the content id \<^verbatim>\<open>abc\<close> become the \<^verbatim>\<open>cid:abc\<close>-form URI:
  the scheme \<^verbatim>\<open>cid\<close>, a colon and the content id.  The URL is valid when that string is
  a URI.
\<close>

definition convertContentIDToURI :: "string \<Rightarrow> KURL" where
  "convertContentIDToURI contentID =
     \<lparr>isValid = isURI (''cid:'' @ contentID), string = ''cid:'' @ contentID\<rparr>"

subsection \<open>Part emission\<close>

text \<open>
  Modelled from the spec: \<^verbatim>\<open>SerializedResource\<close> is not under src/; the fields are those
  of the spec's Resource (data model).
\<close>

record SerializedResource =
  url :: string
  mimeType :: string
  textEncodingName :: "string option"
  resourceData :: string

datatype EncodingPolicy = UseBinaryEncoding | UseDefaultEncoding

text \<open>
  Modelled from the spec: the layout of a MIME part is decided in
  \<^verbatim>\<open>MHTMLArchive::generateMHTMLPart\<close>, which is not under src/.  A part is kept as the
  record of the fields the spec lists for it (part emission): the delimiter's boundary,
  \<^verbatim>\<open>Content-Type\<close> and its charset, the encoding policy its transfer encoding is chosen
  under, \<^verbatim>\<open>Content-Location\<close>, \<^verbatim>\<open>Content-ID\<close> if there is one, and the resource's bytes.
  The output buffer is the list of the parts appended to it.
\<close>

record MIMEPart =
  partBoundary :: string
  partContentType :: string
  partCharset :: "string option"
  partPolicy :: EncodingPolicy
  partContentLocation :: string
  partContentID :: "string option"
  partBody :: string

type_synonym SharedBuffer = "MIMEPart list"

text \<open>
  Modelled from the spec: \<^verbatim>\<open>MHTMLArchive::generateMHTMLPart\<close> is not under src/.  It
  appends one part for the resource (part emission in the spec): \<^verbatim>\<open>Content-Type\<close> is the
  resource's media type, with the charset when the resource has a text encoding name;
  \<^verbatim>\<open>Content-Location\<close> is the resource's URL as it is; \<^verbatim>\<open>Content-ID\<close> is there when the
  content id it is given is not empty (every part but a frame's own document is given
  none) and carries that content id.
\<close>

definition generateMHTMLPart ::
  "string \<Rightarrow> string \<Rightarrow> EncodingPolicy \<Rightarrow> SerializedResource \<Rightarrow> SharedBuffer \<Rightarrow> SharedBuffer"
  where
  "generateMHTMLPart boundary contentID encodingPolicy resource outputBuffer =
     outputBuffer @
     [\<lparr>partBoundary = boundary,
       partContentType = mimeType resource,
       partCharset = textEncodingName resource,
       partPolicy = encodingPolicy,
       partContentLocation = url resource,
       partContentID = (if contentID = [] then None else Some contentID),
       partBody = resourceData resource\<rparr>]"

text \<open>
  The loop of \<^verbatim>\<open>generateMHTMLParts\<close> over the serializer's resources, with its flag
  \<^verbatim>\<open>isFirstResource\<close> and the output buffer it appends to.
\<close>

fun generateMHTMLParts_loop ::
  "string \<Rightarrow> ContentIDMap \<Rightarrow> Frame \<Rightarrow> EncodingPolicy \<Rightarrow> bool \<Rightarrow> SerializedResource list
     \<Rightarrow> SharedBuffer \<Rightarrow> SharedBuffer" where
  "generateMHTMLParts_loop boundary frameToContentID frame encodingPolicy isFirstResource
     [] output = output"
| "generateMHTMLParts_loop boundary frameToContentID frame encodingPolicy isFirstResource
     (resource # rest) output =
     (let contentID = (if isFirstResource then HashMap_get frameToContentID frame else [])
      in generateMHTMLParts_loop boundary frameToContentID frame encodingPolicy False rest
           (generateMHTMLPart boundary contentID encodingPolicy resource output))"

text \<open>
  \<^verbatim>\<open>generateMHTMLParts\<close>.  The page serializer is an external collaborator: the last
  argument is the vector of resources that \<^verbatim>\<open>serializer.serializeFrame(*frame)\<close> has
  filled, the frame's own document first.
\<close>

definition generateMHTMLParts ::
  "string \<Rightarrow> 'a WebLocalFrame_scheme \<Rightarrow> bool \<Rightarrow> (WebFrame \<times> string) list
     \<Rightarrow> SerializedResource list \<Rightarrow> SharedBuffer" where
  "generateMHTMLParts boundary webFrame useBinaryEncoding webFrameToContentID resources =
     (let frame = coreFrame webFrame;
          encodingPolicy = (if useBinaryEncoding then UseBinaryEncoding
                            else UseDefaultEncoding);
          frameToContentID = createFrameToContentIDMap webFrameToContentID
      in generateMHTMLParts_loop boundary frameToContentID frame encodingPolicy True
           resources [])"

subsection \<open>Header emission\<close>

text \<open>
  Modelled from the spec: what \<^verbatim>\<open>MHTMLArchive::generateMHTMLHeader\<close>, which is not under
  src/, brings to the header besides its arguments.  The spec (header emission) has an
  origin marker, a save date and a transport-safe encoding of the title in the envelope.
  The function is called with the boundary, the title and the media type only, so the
  save date is what the clock says when it runs: it is an input here, and so are the
  origin marker and the encoding of the title, whose bytes the spec does not fix.
\<close>

record HeaderEnvironment =
  originMarker :: string
  saveDate :: string
  subjectEncoding :: "string \<Rightarrow> string"

definition CRLF :: string where
  "CRLF = [CHR 0x0D, CHR 0x0A]"

text \<open>
  Modelled from the spec: \<^verbatim>\<open>MHTMLArchive::generateMHTMLHeader\<close> is not under src/.  The
  spec (header emission) lists the fields of the envelope: the origin marker, the save
  date, \<^verbatim>\<open>MIME-Version\<close>, a \<^verbatim>\<open>Subject\<close> with the title, and
  \<^verbatim>\<open>Content-Type: multipart/related\<close> with the boundary as it is given and a \<^verbatim>\<open>type\<close>
  equal to the root document's media type.
\<close>

definition MHTMLArchive_generateMHTMLHeader ::
  "HeaderEnvironment \<Rightarrow> string \<Rightarrow> string \<Rightarrow> string \<Rightarrow> string \<Rightarrow> string" where
  "MHTMLArchive_generateMHTMLHeader env boundary documentTitle mediaType outputBuffer =
     outputBuffer
     @ ''From: '' @ originMarker env @ CRLF
     @ ''Subject: '' @ subjectEncoding env documentTitle @ CRLF
     @ ''Date: '' @ saveDate env @ CRLF
     @ ''MIME-Version: 1.0'' @ CRLF
     @ ''Content-Type: multipart/related;'' @ CRLF
     @ [CHR 0x09] @ ''type=\"'' @ mediaType @ ''\";'' @ CRLF
     @ [CHR 0x09] @ ''boundary=\"'' @ boundary @ ''\"'' @ CRLF @ CRLF"

definition generateMHTMLHeader ::
  "HeaderEnvironment \<Rightarrow> string \<Rightarrow> 'a WebLocalFrame_scheme \<Rightarrow> string" where
  "generateMHTMLHeader env boundary frame =
     (let doc = document frame;
          buffer = []
      in MHTMLArchive_generateMHTMLHeader env boundary (title doc) (suggestedMIMEType doc)
           buffer)"

subsection \<open>String builders\<close>

definition generateMetaCharsetDeclaration :: "string \<Rightarrow> string" where
  "generateMetaCharsetDeclaration charset =
     ''<meta http-equiv=\"Content-Type\" content=\"text/html; charset='' @ charset @ ''\">''"

definition generateBaseTagDeclaration :: "string \<Rightarrow> string" where
  "generateBaseTagDeclaration baseTarget =
     (if baseTarget = [] then ''<base href=\".\">''
      else ''<base href=\".\" target=\"'' @ baseTarget @ ''\">'')"

text \<open>
  What a reader of the markup takes for the value of a double-quoted attribute: the text
  up to the next double quote.
\<close>

definition quotedAttributeValue :: "string \<Rightarrow> string" where
  "quotedAttributeValue s = takeWhile (\<lambda>c. c \<noteq> CHR 0x22) s"

section \<open>Properties\<close>

subsection \<open>The frame-to-content-id table\<close>

text \<open>
  The table built from the caller's vector keeps, for a frame that is listed more than
  once, the content id listed first.
\<close>

lemma createFrameToContentIDMap_loop_map_of:
  "createFrameToContentIDMap_loop result xs
     = map_of (map (\<lambda>it. (coreFrame (fst it), snd it)) xs) ++ result"
proof (induction xs arbitrary: result)
  case Nil
  then show ?case by simp
next
  case (Cons it rest)
  show ?case
    by (auto simp add: Cons.IH HashMap_add_def Let_def map_add_def fun_eq_iff
        split: option.splits)
qed

lemma createFrameToContentIDMap_map_of:
  "createFrameToContentIDMap xs = map_of (map (\<lambda>it. (coreFrame (fst it), snd it)) xs)"
  by (simp add: createFrameToContentIDMap_def createFrameToContentIDMap_loop_map_of)

subsection \<open>Link rewriting\<close>

text \<open>
  What \<^verbatim>\<open>rewriteLink\<close> does for each kind of element, whatever function makes the URL.
  The assertion on the URL comes before the tests of the element's kind.
\<close>

lemma rewriteLink_not_frame_owner:
  "rewriteLink toURI assertionsEnabled delegate OtherElement = Inr None"
  by (simp add: rewriteLink_def)

lemma rewriteLink_assertion_fails:
  assumes "toHTMLFrameOwnerElement element = Some owner"
    and "contentFrame owner = Some f"
    and "\<not> isValid (toURI (HashMap_get (m_frameToContentID delegate) f))"
  shows "rewriteLink toURI True delegate element = Inl AssertionFailure"
  using assms by (cases element) (simp_all add: rewriteLink_def ASSERT_def)

lemma rewriteLink_frame:
  assumes "contentFrame owner = Some f"
    and "\<not> assertionsEnabled \<or> isValid (toURI (HashMap_get (m_frameToContentID delegate) f))"
  shows "rewriteLink toURI assertionsEnabled delegate (HTMLFrameElementBase owner)
           = Inr (Some (string (toURI (HashMap_get (m_frameToContentID delegate) f))))"
  using assms by (auto simp add: rewriteLink_def ASSERT_def)

lemma rewriteLink_object:
  assumes "contentFrame owner = Some f"
    and "\<not> assertionsEnabled \<or> isValid (toURI (HashMap_get (m_frameToContentID delegate) f))"
    and "contentDocument owner = Some doc"
  shows "rewriteLink toURI assertionsEnabled delegate (HTMLObjectElement owner)
           = Inr (if isHTMLDocument doc \<or> isXHTMLDocument doc \<or> isImageDocument doc
                  then Some (string (toURI (HashMap_get (m_frameToContentID delegate) f)))
                  else None)"
  using assms by (auto simp add: rewriteLink_def ASSERT_def)

lemma rewriteLink_object_without_document:
  assumes "contentFrame owner = Some f"
    and "\<not> assertionsEnabled \<or> isValid (toURI (HashMap_get (m_frameToContentID delegate) f))"
    and "contentDocument owner = None"
  shows "rewriteLink toURI assertionsEnabled delegate (HTMLObjectElement owner)
           = Inl NullPointerDereference"
  using assms by (auto simp add: rewriteLink_def ASSERT_def)

lemma rewriteLink_other_frame_owner:
  assumes "contentFrame owner = Some f"
    and "\<not> assertionsEnabled \<or> isValid (toURI (HashMap_get (m_frameToContentID delegate) f))"
  shows "rewriteLink toURI assertionsEnabled delegate (OtherFrameOwnerElement owner)
           = Inr None"
  using assms by (auto simp add: rewriteLink_def ASSERT_def)

text \<open>
  C2 fails at an object element that has a content frame and no content document: the
  frame has an entry in the table, and the call goes through the null \<^verbatim>\<open>Document*\<close>
  instead of answering that there is no link.  It does so without assertions for every
  function that makes the URL, and with assertions for a URL that passes them.
\<close>

theorem rewriteLink_object_null_document:
  "rewriteLink toURI False
     \<lparr>m_frameToContentID = createFrameToContentIDMap [(\<lparr>coreFrame = 1\<rparr>, ''child@archive'')]\<rparr>
     (HTMLObjectElement \<lparr>contentFrame = Some 1, contentDocument = None\<rparr>)
     = Inl NullPointerDereference
   \<and> rewriteLink convertContentIDToURI True
     \<lparr>m_frameToContentID = createFrameToContentIDMap [(\<lparr>coreFrame = 1\<rparr>, ''child@archive'')]\<rparr>
     (HTMLObjectElement \<lparr>contentFrame = Some 1, contentDocument = None\<rparr>)
     = Inl NullPointerDereference"
  by (simp add: rewriteLink_def ASSERT_def createFrameToContentIDMap_def HashMap_add_def
      HashMap_get_def convertContentIDToURI_def isURI_def isALPHA_def isDIGIT_def
      isSchemeChar_def isURIChar_def)

text \<open>
  C9. For every frame owner whose content frame is null, \<^verbatim>\<open>rewriteLink\<close> answers
  \<^verbatim>\<open>false\<close>: whatever the table holds, whichever build it is and whatever function makes
  the URL, there is no link and no failure.
\<close>

theorem rewriteLink_null_contentFrame:
  assumes "toHTMLFrameOwnerElement element = Some owner"
    and "contentFrame owner = None"
  shows "rewriteLink toURI assertionsEnabled delegate element = Inr None"
  using assms by (cases element) (simp_all add: rewriteLink_def)

theorem rewriteLink_null_contentFrame_witness:
  "toHTMLFrameOwnerElement
     (HTMLObjectElement \<lparr>contentFrame = None, contentDocument = None\<rparr>)
     = Some \<lparr>contentFrame = None, contentDocument = None\<rparr>
   \<and> contentFrame \<lparr>contentFrame = None, contentDocument = None\<rparr> = None
   \<and> rewriteLink convertContentIDToURI True
       \<lparr>m_frameToContentID = createFrameToContentIDMap []\<rparr>
       (HTMLObjectElement \<lparr>contentFrame = None, contentDocument = None\<rparr>) = Inr None"
  using rewriteLink_null_contentFrame
    [where element = "HTMLObjectElement \<lparr>contentFrame = None, contentDocument = None\<rparr>"
      and owner = "\<lparr>contentFrame = None, contentDocument = None\<rparr>"
      and toURI = convertContentIDToURI
      and assertionsEnabled = True
      and delegate = "\<lparr>m_frameToContentID = createFrameToContentIDMap []\<rparr>"]
  by simp

text \<open>
  C3 fails in a build without assertions: the table has no entry for the content frame
  of the iframe, nothing tests the table, \<^verbatim>\<open>ASSERT(cidURI.isValid())\<close> is compiled out, and
  the call answers \<^verbatim>\<open>true\<close> with the string of the URL made from the null content id as the
  link, whatever function makes the URL.
\<close>

theorem rewriteLink_missing_entry_release:
  "createFrameToContentIDMap [(\<lparr>coreFrame = 2\<rparr>, ''child@archive'')] 1 = None
   \<and> rewriteLink toURI False
     \<lparr>m_frameToContentID = createFrameToContentIDMap [(\<lparr>coreFrame = 2\<rparr>, ''child@archive'')]\<rparr>
     (HTMLFrameElementBase \<lparr>contentFrame = Some 1, contentDocument = None\<rparr>)
     = Inr (Some (string (toURI [])))"
  by (simp add: rewriteLink_def ASSERT_def createFrameToContentIDMap_def HashMap_add_def
      HashMap_get_def)

text \<open>
  C5. For a frame or iframe element, and for an object element whose content document is
  an HTML, XHTML or image document (the elements whose link the delegate rewrites), with
  the content frame mapped to \<^verbatim>\<open>abc\<close>: the link \<^verbatim>\<open>rewriteLink\<close> returns is exactly the string
  of the URL made from \<^verbatim>\<open>abc\<close>, and with assertions it is returned only if that URL is
  valid; with the URL the spec describes the link is exactly \<^verbatim>\<open>cid:abc\<close> in either build,
  and \<^verbatim>\<open>cid:abc\<close> has the syntax of a URI.
\<close>

theorem rewriteLink_cid_abc:
  assumes "m_frameToContentID delegate f = Some ''abc''"
    and "contentFrame owner = Some f"
    and "element = HTMLFrameElementBase owner
         \<or> (element = HTMLObjectElement owner \<and> contentDocument owner = Some doc
            \<and> (isHTMLDocument doc \<or> isXHTMLDocument doc \<or> isImageDocument doc))"
  shows "rewriteLink toURI assertionsEnabled delegate element
           = (if assertionsEnabled \<and> \<not> isValid (toURI ''abc'') then Inl AssertionFailure
              else Inr (Some (string (toURI ''abc''))))
         \<and> rewriteLink convertContentIDToURI assertionsEnabled delegate element
           = Inr (Some ''cid:abc'')
         \<and> isURI ''cid:abc''"
proof (intro conjI)
  have entry: "HashMap_get (m_frameToContentID delegate) f = ''abc''"
    using assms(1) by (simp add: HashMap_get_def)
  show "rewriteLink toURI assertionsEnabled delegate element
           = (if assertionsEnabled \<and> \<not> isValid (toURI ''abc'') then Inl AssertionFailure
              else Inr (Some (string (toURI ''abc''))))"
    using assms(2,3) entry by (auto simp add: rewriteLink_def ASSERT_def)
  show uri: "isURI ''cid:abc''"
    by (simp add: isURI_def isALPHA_def isDIGIT_def isSchemeChar_def isURIChar_def)
  then have "isValid (convertContentIDToURI ''abc'')"
    and "string (convertContentIDToURI ''abc'') = ''cid:abc''"
    by (simp_all add: convertContentIDToURI_def)
  then show "rewriteLink convertContentIDToURI assertionsEnabled delegate element
           = Inr (Some ''cid:abc'')"
    using assms(2,3) entry by (auto simp add: rewriteLink_def ASSERT_def)
qed

theorem rewriteLink_cid_abc_witness:
  "m_frameToContentID
     \<lparr>m_frameToContentID = createFrameToContentIDMap [(\<lparr>coreFrame = 1\<rparr>, ''abc'')]\<rparr> 1
     = Some ''abc''
   \<and> rewriteLink convertContentIDToURI True
       \<lparr>m_frameToContentID = createFrameToContentIDMap [(\<lparr>coreFrame = 1\<rparr>, ''abc'')]\<rparr>
       (HTMLFrameElementBase \<lparr>contentFrame = Some 1, contentDocument = None\<rparr>)
     = Inr (Some ''cid:abc'')"
proof -
  have entry: "m_frameToContentID
     \<lparr>m_frameToContentID = createFrameToContentIDMap [(\<lparr>coreFrame = 1\<rparr>, ''abc'')]\<rparr> 1
     = Some ''abc''"
    by (simp add: createFrameToContentIDMap_def HashMap_add_def)
  have frame: "contentFrame \<lparr>contentFrame = Some 1, contentDocument = None\<rparr> = Some 1"
    by simp
  have kind: "HTMLFrameElementBase \<lparr>contentFrame = Some 1, contentDocument = None\<rparr>
        = HTMLFrameElementBase \<lparr>contentFrame = Some 1, contentDocument = None\<rparr>
      \<or> (HTMLFrameElementBase \<lparr>contentFrame = Some 1, contentDocument = None\<rparr>
            = HTMLObjectElement \<lparr>contentFrame = Some 1, contentDocument = None\<rparr>
          \<and> contentDocument \<lparr>contentFrame = Some 1, contentDocument = None\<rparr>
            = Some \<lparr>title = [], suggestedMIMEType = [], isHTMLDocument = True,
                    isXHTMLDocument = False, isImageDocument = False\<rparr>
          \<and> (isHTMLDocument \<lparr>title = [], suggestedMIMEType = [], isHTMLDocument = True,
                    isXHTMLDocument = False, isImageDocument = False\<rparr>
             \<or> isXHTMLDocument \<lparr>title = [], suggestedMIMEType = [], isHTMLDocument = True,
                    isXHTMLDocument = False, isImageDocument = False\<rparr>
             \<or> isImageDocument \<lparr>title = [], suggestedMIMEType = [], isHTMLDocument = True,
                    isXHTMLDocument = False, isImageDocument = False\<rparr>))"
    by simp
  show ?thesis
    using entry rewriteLink_cid_abc
      [where assertionsEnabled = True and toURI = convertContentIDToURI,
        OF entry frame kind, THEN conjunct2, THEN conjunct1]
    by simp
qed

subsection \<open>Attributes\<close>

text \<open>
  C6, as it is stated, fails for an attribute that is not the \<^verbatim>\<open>srcset\<close> attribute but has
  its local name: \<^verbatim>\<open>xlink:srcset\<close>, in the XLink namespace, is ignored too.
\<close>

theorem shouldIgnoreAttribute_counterexample:
  "shouldIgnoreAttribute
     \<lparr>name = \<lparr>namePrefix = ''xlink'', localName = ''srcset'',
               namespaceURI = ''http://www.w3.org/1999/xlink''\<rparr>,
       val = ''a.png 2x''\<rparr>
   \<and> name \<lparr>name = \<lparr>namePrefix = ''xlink'', localName = ''srcset'',
                    namespaceURI = ''http://www.w3.org/1999/xlink''\<rparr>,
            val = ''a.png 2x''\<rparr>
     \<noteq> srcsetAttr"
  by (simp add: shouldIgnoreAttribute_def eqLocalName_def srcsetAttr_def)

text \<open>
  C6, amended. For every attribute, \<^verbatim>\<open>shouldIgnoreAttribute\<close> answers true exactly when the
  local name of the attribute is \<^verbatim>\<open>srcset\<close>, whatever its prefix and namespace are, and
  false for every attribute with another local name.
\<close>

theorem shouldIgnoreAttribute_iff_srcset:
  "shouldIgnoreAttribute attribute = (localName (name attribute) = ''srcset'')"
  by (simp add: shouldIgnoreAttribute_def eqLocalName_def srcsetAttr_def)

subsection \<open>Part emission\<close>

lemma generateMHTMLPart_append:
  "generateMHTMLPart b c pol r out = out @ generateMHTMLPart b c pol r []"
  by (simp add: generateMHTMLPart_def)

lemma generateMHTMLParts_loop_enumerate:
  "isFirstResource = (n = 0) \<Longrightarrow>
   generateMHTMLParts_loop b m f pol isFirstResource rs out
     = out @ concat (map (\<lambda>(k, r). generateMHTMLPart b
                            (if k = 0 then HashMap_get m f else []) pol r [])
                      (enumerate n rs))"
proof (induction rs arbitrary: n out isFirstResource)
  case Nil
  show ?case by simp
next
  case (Cons r rs)
  have "generateMHTMLParts_loop b m f pol isFirstResource (r # rs) out
          = generateMHTMLParts_loop b m f pol False rs
              (generateMHTMLPart b (if n = 0 then HashMap_get m f else []) pol r out)"
    using Cons.prems by simp
  also have "\<dots> = generateMHTMLPart b (if n = 0 then HashMap_get m f else []) pol r out
          @ concat (map (\<lambda>(k, r). generateMHTMLPart b
                            (if k = 0 then HashMap_get m f else []) pol r [])
                      (enumerate (Suc n) rs))"
    by (rule Cons.IH) simp
  also have "\<dots> = out @ concat (map (\<lambda>(k, r). generateMHTMLPart b
                            (if k = 0 then HashMap_get m f else []) pol r [])
                      (enumerate n (r # rs)))"
    by (subst generateMHTMLPart_append) simp
  finally show ?case .
qed

lemma partContentID_single:
  "partContentID (hd (generateMHTMLPart b c pol r [])) = (if c = [] then None else Some c)"
  by (simp add: generateMHTMLPart_def)

lemma generateMHTMLPart_single:
  "generateMHTMLPart b c pol r [] = [hd (generateMHTMLPart b c pol r [])]"
  by (simp add: generateMHTMLPart_def)

lemma concat_parts_map:
  "concat (map (\<lambda>(k, r). generateMHTMLPart b (c k) pol r []) xs)
     = map (\<lambda>(k, r). hd (generateMHTMLPart b (c k) pol r [])) xs"
proof (induction xs)
  case Nil
  show ?case by simp
next
  case (Cons x xs)
  obtain k r where x: "x = (k, r)" by (cases x)
  show ?case
    unfolding x using Cons.IH generateMHTMLPart_single [of b "c k" pol r] by simp
qed

lemma concat_parts_nth:
  "i < length xs \<Longrightarrow>
   concat (map (\<lambda>(k, r). generateMHTMLPart b (c k) pol r []) xs) ! i
     = hd (generateMHTMLPart b (c (fst (xs ! i))) pol (snd (xs ! i)) [])"
  by (simp add: concat_parts_map case_prod_beta)

lemma concat_parts_length:
  "length (concat (map (\<lambda>(k, r). generateMHTMLPart b (c k) pol r []) xs)) = length xs"
  by (simp add: concat_parts_map)

text \<open>
  C1. For every batch whose frame the table maps to a content id that is not empty: the
  output is what \<^verbatim>\<open>generateMHTMLPart\<close> appends for each resource in turn, given that
  content id at index 0 and the null string at every other index, one part for each
  resource; the part at index \<open>i\<close> carries a \<^verbatim>\<open>Content-ID\<close> if and only if \<open>i\<close> is 0, and the
  value of the first part's \<^verbatim>\<open>Content-ID\<close> is exactly the table's content id for the
  frame.
\<close>

theorem generateMHTMLParts_contentID:
  assumes "createFrameToContentIDMap table (coreFrame webFrame) = Some contentID"
    and "contentID \<noteq> []"
    and "i < length resources"
  shows "generateMHTMLParts boundary webFrame useBinaryEncoding table resources
           = concat (map (\<lambda>(k, resource). generateMHTMLPart boundary
                            (if k = 0 then contentID else [])
                            (if useBinaryEncoding then UseBinaryEncoding
                             else UseDefaultEncoding) resource [])
                      (enumerate 0 resources))
         \<and> length (generateMHTMLParts boundary webFrame useBinaryEncoding table resources)
           = length resources
         \<and> (partContentID
               (generateMHTMLParts boundary webFrame useBinaryEncoding table resources ! i)
             \<noteq> None) = (i = 0)
         \<and> partContentID
             (generateMHTMLParts boundary webFrame useBinaryEncoding table resources ! i)
           = (if i = 0 then Some contentID else None)"
proof -
  have entry: "HashMap_get (createFrameToContentIDMap table) (coreFrame webFrame) = contentID"
    using assms(1) by (simp add: HashMap_get_def)
  have parts: "generateMHTMLParts boundary webFrame useBinaryEncoding table resources
           = concat (map (\<lambda>(k, resource). generateMHTMLPart boundary
                            (if k = 0 then contentID else [])
                            (if useBinaryEncoding then UseBinaryEncoding
                             else UseDefaultEncoding) resource [])
                      (enumerate 0 resources))"
    unfolding generateMHTMLParts_def Let_def
    by (subst generateMHTMLParts_loop_enumerate [where n = 0]) (simp_all cong: if_cong add: entry)
  have len: "length (generateMHTMLParts boundary webFrame useBinaryEncoding table resources)
           = length resources"
    unfolding parts by (simp only: concat_parts_length length_enumerate)
  have carried: "partContentID
             (generateMHTMLParts boundary webFrame useBinaryEncoding table resources ! i)
           = (if i = 0 then Some contentID else None)"
    unfolding parts using assms(2,3)
    by (simp add: concat_parts_nth partContentID_single nth_enumerate_eq)
  then have "(partContentID
               (generateMHTMLParts boundary webFrame useBinaryEncoding table resources ! i)
             \<noteq> None) = (i = 0)"
    by simp
  with parts len carried show ?thesis by (intro conjI)
qed

theorem generateMHTMLParts_contentID_witness:
  "createFrameToContentIDMap
     [(\<lparr>coreFrame = 1\<rparr>, ''root@archive''), (\<lparr>coreFrame = 2\<rparr>, ''child@archive'')] 1
     = Some ''root@archive''
   \<and> partContentID
     (generateMHTMLParts ''BOUNDARY1''
        \<lparr>coreFrame = 1,
         document = \<lparr>title = ''t'', suggestedMIMEType = ''text/html'', isHTMLDocument = True,
                     isXHTMLDocument = False, isImageDocument = False\<rparr>\<rparr>
        False
        [(\<lparr>coreFrame = 1\<rparr>, ''root@archive''), (\<lparr>coreFrame = 2\<rparr>, ''child@archive'')]
        [\<lparr>url = ''http://a/'', mimeType = ''text/html'', textEncodingName = Some ''UTF-8'',
           resourceData = ''<p>''\<rparr>,
         \<lparr>url = ''http://a/i.png'', mimeType = ''image/png'', textEncodingName = None,
           resourceData = ''PNG''\<rparr>] ! 0) = Some ''root@archive''
   \<and> partContentID
     (generateMHTMLParts ''BOUNDARY1''
        \<lparr>coreFrame = 1,
         document = \<lparr>title = ''t'', suggestedMIMEType = ''text/html'', isHTMLDocument = True,
                     isXHTMLDocument = False, isImageDocument = False\<rparr>\<rparr>
        False
        [(\<lparr>coreFrame = 1\<rparr>, ''root@archive''), (\<lparr>coreFrame = 2\<rparr>, ''child@archive'')]
        [\<lparr>url = ''http://a/'', mimeType = ''text/html'', textEncodingName = Some ''UTF-8'',
           resourceData = ''<p>''\<rparr>,
         \<lparr>url = ''http://a/i.png'', mimeType = ''image/png'', textEncodingName = None,
           resourceData = ''PNG''\<rparr>] ! 1) = None"
proof -
  have entry: "createFrameToContentIDMap
     [(\<lparr>coreFrame = 1\<rparr>, ''root@archive''), (\<lparr>coreFrame = 2\<rparr>, ''child@archive'')]
     (coreFrame \<lparr>coreFrame = 1,
         document = \<lparr>title = ''t'', suggestedMIMEType = ''text/html'', isHTMLDocument = True,
                     isXHTMLDocument = False, isImageDocument = False\<rparr>\<rparr>)
     = Some ''root@archive''"
    by (simp add: createFrameToContentIDMap_def HashMap_add_def)
  have nonempty: "''root@archive'' \<noteq> []"
    by simp
  have first: "(0::nat) < length [\<lparr>url = ''http://a/'', mimeType = ''text/html'',
                        textEncodingName = Some ''UTF-8'', resourceData = ''<p>''\<rparr>,
                      \<lparr>url = ''http://a/i.png'', mimeType = ''image/png'',
                        textEncodingName = None, resourceData = ''PNG''\<rparr>]"
    by simp
  have second: "(1::nat) < length [\<lparr>url = ''http://a/'', mimeType = ''text/html'',
                        textEncodingName = Some ''UTF-8'', resourceData = ''<p>''\<rparr>,
                      \<lparr>url = ''http://a/i.png'', mimeType = ''image/png'',
                        textEncodingName = None, resourceData = ''PNG''\<rparr>]"
    by simp
  show ?thesis
    using entry
      generateMHTMLParts_contentID [where boundary = "''BOUNDARY1''"
        and useBinaryEncoding = False, OF entry nonempty first,
        THEN conjunct2, THEN conjunct2, THEN conjunct2]
      generateMHTMLParts_contentID [where boundary = "''BOUNDARY1''"
        and useBinaryEncoding = False, OF entry nonempty second,
        THEN conjunct2, THEN conjunct2, THEN conjunct2]
    by simp
qed

subsection \<open>Header emission\<close>

lemma generateMHTMLHeader_around_saveDate:
  "generateMHTMLHeader (env\<lparr>saveDate := d\<rparr>) boundary fr
     = (''From: '' @ originMarker env @ CRLF
        @ ''Subject: '' @ subjectEncoding env (title (document fr)) @ CRLF @ ''Date: '')
       @ d
       @ (CRLF @ ''MIME-Version: 1.0'' @ CRLF
          @ ''Content-Type: multipart/related;'' @ CRLF
          @ [CHR 0x09] @ ''type=\"'' @ suggestedMIMEType (document fr) @ ''\";'' @ CRLF
          @ [CHR 0x09] @ ''boundary=\"'' @ boundary @ ''\"'' @ CRLF @ CRLF)"
  by (simp add: generateMHTMLHeader_def MHTMLArchive_generateMHTMLHeader_def Let_def)

text \<open>
  C7, as it is stated, fails: two calls with the same boundary, title and media type,
  one second apart, give different bytes.
\<close>

theorem generateMHTMLHeader_pure_counterexample:
  "generateMHTMLHeader
     \<lparr>originMarker = ''<saved>'', saveDate = ''Mon, 02 Nov 2026 10:00:00 -0000'',
       subjectEncoding = id\<rparr> ''BOUNDARY1''
     \<lparr>coreFrame = 1,
       document = \<lparr>title = ''t'', suggestedMIMEType = ''text/html'', isHTMLDocument = True,
                   isXHTMLDocument = False, isImageDocument = False\<rparr>\<rparr>
   \<noteq> generateMHTMLHeader
     \<lparr>originMarker = ''<saved>'', saveDate = ''Mon, 02 Nov 2026 10:00:01 -0000'',
       subjectEncoding = id\<rparr> ''BOUNDARY1''
     \<lparr>coreFrame = 1,
       document = \<lparr>title = ''t'', suggestedMIMEType = ''text/html'', isHTMLDocument = True,
                   isXHTMLDocument = False, isImageDocument = False\<rparr>\<rparr>"
  by (simp add: generateMHTMLHeader_def MHTMLArchive_generateMHTMLHeader_def Let_def CRLF_def)

text \<open>
  C7, amended. The header is determined by the boundary, the title, the media type and
  the save date: of the frame it reads the document's title and media type only, and two
  calls that agree on boundary, title and media type give the same bytes exactly when
  their save dates are the same.
\<close>

theorem generateMHTMLHeader_determined_with_saveDate:
  assumes "title (document frameA) = title (document frameB)"
    and "suggestedMIMEType (document frameA) = suggestedMIMEType (document frameB)"
  shows "(generateMHTMLHeader (env\<lparr>saveDate := dateA\<rparr>) boundary frameA
            = generateMHTMLHeader (env\<lparr>saveDate := dateB\<rparr>) boundary frameB)
         = (dateA = dateB)"
  unfolding generateMHTMLHeader_around_saveDate assms
  by (simp only: same_append_eq append_same_eq)

theorem generateMHTMLHeader_determined_with_saveDate_witness:
  "generateMHTMLHeader
     \<lparr>originMarker = ''<saved>'', saveDate = ''Mon, 02 Nov 2026 10:00:00 -0000'',
       subjectEncoding = id\<rparr> ''BOUNDARY1''
     \<lparr>coreFrame = 1,
       document = \<lparr>title = ''t'', suggestedMIMEType = ''text/html'', isHTMLDocument = True,
                   isXHTMLDocument = False, isImageDocument = False\<rparr>\<rparr>
   = generateMHTMLHeader
     \<lparr>originMarker = ''<saved>'', saveDate = ''Mon, 02 Nov 2026 10:00:00 -0000'',
       subjectEncoding = id\<rparr> ''BOUNDARY1''
     \<lparr>coreFrame = 2,
       document = \<lparr>title = ''t'', suggestedMIMEType = ''text/html'', isHTMLDocument = False,
                   isXHTMLDocument = True, isImageDocument = False\<rparr>\<rparr>"
  using generateMHTMLHeader_determined_with_saveDate
    [where env = "\<lparr>originMarker = ''<saved>'', saveDate = [], subjectEncoding = id\<rparr>"
      and dateA = "''Mon, 02 Nov 2026 10:00:00 -0000''"
      and dateB = "''Mon, 02 Nov 2026 10:00:00 -0000''"
      and boundary = "''BOUNDARY1''"
      and frameA = "\<lparr>coreFrame = 1,
       document = \<lparr>title = ''t'', suggestedMIMEType = ''text/html'', isHTMLDocument = True,
                   isXHTMLDocument = False, isImageDocument = False\<rparr>\<rparr>"
      and frameB = "\<lparr>coreFrame = 2,
       document = \<lparr>title = ''t'', suggestedMIMEType = ''text/html'', isHTMLDocument = False,
                   isXHTMLDocument = True, isImageDocument = False\<rparr>\<rparr>"]
  by simp

subsection \<open>String builders\<close>

text \<open>
  C8. \<^verbatim>\<open>generateBaseTagDeclaration\<close> returns exactly \<^verbatim>\<open><base href=".">\<close> for the empty
  base target, and exactly \<^verbatim>\<open><base href="." target="T">\<close> for a base target \<open>T\<close> that is
  not empty.
\<close>

theorem generateBaseTagDeclaration_exact:
  "generateBaseTagDeclaration baseTarget =
     (if baseTarget = []
      then [CHR ''<'', CHR ''b'', CHR ''a'', CHR ''s'', CHR ''e'', CHR '' '',
            CHR ''h'', CHR ''r'', CHR ''e'', CHR ''f'', CHR ''='', CHR 0x22,
            CHR ''.'', CHR 0x22, CHR ''>'']
      else [CHR ''<'', CHR ''b'', CHR ''a'', CHR ''s'', CHR ''e'', CHR '' '',
            CHR ''h'', CHR ''r'', CHR ''e'', CHR ''f'', CHR ''='', CHR 0x22,
            CHR ''.'', CHR 0x22, CHR '' '', CHR ''t'', CHR ''a'', CHR ''r'',
            CHR ''g'', CHR ''e'', CHR ''t'', CHR ''='', CHR 0x22]
           @ baseTarget @ [CHR 0x22, CHR ''>''])"
  by (simp add: generateBaseTagDeclaration_def)

theorem generateBaseTagDeclaration_exact_witness:
  "generateBaseTagDeclaration [] = ''<base href=\".\">'' \<and>
   generateBaseTagDeclaration ''_top'' = ''<base href=\".\" target=\"_top\">''"
  using generateBaseTagDeclaration_exact [of "[]"]
    generateBaseTagDeclaration_exact [of "''_top''"]
  by simp

lemma quotedAttributeValue_Cons:
  "quotedAttributeValue (c # s) = (if c = CHR 0x22 then [] else c # quotedAttributeValue s)"
  by (simp add: quotedAttributeValue_def)

lemma quotedAttributeValue_closed:
  "quotedAttributeValue (s @ CHR 0x22 # t) = quotedAttributeValue s"
  by (induction s) (simp_all add: quotedAttributeValue_def)

text \<open>
  C10. \<^verbatim>\<open>generateMetaCharsetDeclaration\<close> returns the fixed opening text, the charset as
  it was given, and the closing \<^verbatim>\<open>">\<close>; nothing is escaped or checked.  So the value a
  reader finds for the \<^verbatim>\<open>content\<close> attribute stops at the first double quote of the
  charset: it is the whole of \<^verbatim>\<open>text/html; charset=\<close> and the charset exactly when the
  charset has no double quote in it, and a charset with one ends the attribute early.
\<close>

theorem generateMetaCharsetDeclaration_verbatim:
  "generateMetaCharsetDeclaration charset =
     ''<meta http-equiv=\"Content-Type\" content=\"'' @ ''text/html; charset='' @ charset
       @ [CHR 0x22, CHR ''>'']
   \<and> quotedAttributeValue
         (drop (length ''<meta http-equiv=\"Content-Type\" content=\"'')
            (generateMetaCharsetDeclaration charset))
       = ''text/html; charset='' @ quotedAttributeValue charset
   \<and> (quotedAttributeValue
         (drop (length ''<meta http-equiv=\"Content-Type\" content=\"'')
            (generateMetaCharsetDeclaration charset))
        = ''text/html; charset='' @ charset) = (CHR 0x22 \<notin> set charset)"
proof (intro conjI)
  show "generateMetaCharsetDeclaration charset =
     ''<meta http-equiv=\"Content-Type\" content=\"'' @ ''text/html; charset='' @ charset
       @ [CHR 0x22, CHR ''>'']"
    by (simp add: generateMetaCharsetDeclaration_def)
next
  have "drop (length ''<meta http-equiv=\"Content-Type\" content=\"'')
            (generateMetaCharsetDeclaration charset)
        = ''text/html; charset='' @ charset @ CHR 0x22 # ''>''"
    by (simp add: generateMetaCharsetDeclaration_def)
  moreover have "quotedAttributeValue (''text/html; charset='' @ charset @ CHR 0x22 # ''>'')
        = ''text/html; charset='' @ quotedAttributeValue (charset @ CHR 0x22 # ''>'')"
    by (simp add: quotedAttributeValue_Cons)
  ultimately show found: "quotedAttributeValue
         (drop (length ''<meta http-equiv=\"Content-Type\" content=\"'')
            (generateMetaCharsetDeclaration charset))
       = ''text/html; charset='' @ quotedAttributeValue charset"
    by (simp only: quotedAttributeValue_closed)
  have "(quotedAttributeValue charset = charset) = (CHR 0x22 \<notin> set charset)"
    unfolding quotedAttributeValue_def takeWhile_eq_all_conv by blast
  then show "(quotedAttributeValue
         (drop (length ''<meta http-equiv=\"Content-Type\" content=\"'')
            (generateMetaCharsetDeclaration charset))
        = ''text/html; charset='' @ charset) = (CHR 0x22 \<notin> set charset)"
    unfolding found by (simp only: same_append_eq)
qed

theorem generateMetaCharsetDeclaration_verbatim_witness:
  "generateMetaCharsetDeclaration ''x\" onload=\"y''
     = ''<meta http-equiv=\"Content-Type\" content=\"text/html; charset=x\" onload=\"y\">''
   \<and> quotedAttributeValue
         (drop (length ''<meta http-equiv=\"Content-Type\" content=\"'')
            (generateMetaCharsetDeclaration ''x\" onload=\"y''))
       = ''text/html; charset=x''"
  using generateMetaCharsetDeclaration_verbatim [of "''x\" onload=\"y''"]
  by (simp add: quotedAttributeValue_Cons)

end
